theory Spec2Isabelle
  imports Complex_Main "HOL-Library.Word"
begin

section \<open>JavaScript numbers\<close>

text \<open>
  A JavaScript \<^verbatim>\<open>number\<close> is an IEEE 754 binary64 value. Every finite one is a rational,
  so a finite number is modelled by its value in \<^typ>\<open>rat\<close>; the sign of zero, which neither
  \<^verbatim>\<open>Math.abs\<close> nor \<^verbatim>\<open><\<close> observes, is dropped. The coordinates of a
  \<^verbatim>\<open>GeolocationPosition\<close> are Web IDL \<^verbatim>\<open>double\<close>s, hence finite; their difference is
  finite or, on overflow, infinite, and never NaN.
\<close>

datatype number = Num rat | PosInfinity | NegInfinity

definition pow2 :: "int \<Rightarrow> rat" where
  "pow2 e = (if 0 \<le> e then 2 ^ nat e else 1 / 2 ^ nat (- e))"

text \<open>The number of binary digits of a positive integer (0 for the others).\<close>

function bit_length :: "int \<Rightarrow> int" where
  "bit_length n = (if n \<le> 0 then 0 else 1 + bit_length (n div 2))"
  by pat_completeness auto
termination
  by (relation "measure nat") auto

declare bit_length.simps [simp del]

text \<open>For \<open>0 < q\<close>, the exponent \<open>e\<close> with \<open>2 ^ e \<le> q < 2 ^ (e + 1)\<close>.\<close>

definition floor_log2 :: "rat \<Rightarrow> int" where
  "floor_log2 q =
     (if 1 \<le> q then bit_length \<lfloor>q\<rfloor> - 1 else - bit_length (\<lceil>1 / q\<rceil> - 1))"

definition round_half_even :: "rat \<Rightarrow> int" where
  "round_half_even q =
     (let f = \<lfloor>q\<rfloor>; r = q - of_int f
      in if r < 1 / 2 then f
         else if 1 / 2 < r then f + 1
         else if even f then f else f + 1)"

text \<open>
  Rounding of an exact result to binary64, to nearest with ties to even: 53 significant
  bits, the least exponent \<open>- 1022\<close> (below it the spacing stays \<open>2 ^ - 1074\<close>), and
  overflow to an infinity from \<open>2 ^ 1024\<close> on.
\<close>

definition to_binary64 :: "rat \<Rightarrow> number" where
  "to_binary64 q =
     (if q = 0 then Num 0
      else let e = max (floor_log2 \<bar>q\<bar>) (- 1022);
               ulp = pow2 (e - 52);
               r = of_int (round_half_even (\<bar>q\<bar> / ulp)) * ulp
           in if pow2 1024 \<le> r then (if 0 < q then PosInfinity else NegInfinity)
              else Num (if 0 < q then r else - r))"

text \<open>The operators the handler applies: \<^verbatim>\<open>x - y\<close>, \<^verbatim>\<open>Math.abs\<close> and \<^verbatim>\<open><\<close>.\<close>

definition number_sub :: "rat \<Rightarrow> rat \<Rightarrow> number" where
  "number_sub x y = to_binary64 (x - y)"

fun Math_abs :: "number \<Rightarrow> number" where
  "Math_abs (Num q) = Num \<bar>q\<bar>"
| "Math_abs PosInfinity = PosInfinity"
| "Math_abs NegInfinity = PosInfinity"

fun number_lt :: "number \<Rightarrow> number \<Rightarrow> bool" where
  "number_lt (Num a) (Num b) = (a < b)"
| "number_lt (Num a) PosInfinity = True"
| "number_lt NegInfinity (Num b) = True"
| "number_lt NegInfinity PosInfinity = True"
| "number_lt (Num a) NegInfinity = False"
| "number_lt PosInfinity b = False"
| "number_lt NegInfinity NegInfinity = False"

text \<open>
  \<^verbatim>\<open>>=\<close> is the comparison the specification uses for the accepting side; the
  source has no occurrence of it.
\<close>

fun number_ge :: "number \<Rightarrow> number \<Rightarrow> bool" where
  "number_ge (Num a) (Num b) = (b \<le> a)"
| "number_ge (Num a) PosInfinity = False"
| "number_ge (Num a) NegInfinity = True"
| "number_ge PosInfinity b = True"
| "number_ge NegInfinity (Num b) = False"
| "number_ge NegInfinity PosInfinity = False"
| "number_ge NegInfinity NegInfinity = True"

text \<open>The literal \<^verbatim>\<open>0.0001\<close> denotes the binary64 value nearest to \<open>1 / 10000\<close>.\<close>

definition threshold :: number where
  "threshold = to_binary64 (1 / 10000)"

section \<open>JavaScript strings\<close>

text \<open>
  A string is a sequence of UTF-16 code units. \<open>str\<close> gives the string of an ASCII
  literal; the letters beyond ASCII of the messages are written as their code units.
\<close>

type_synonym jsstring = "16 word list"

definition str :: "string \<Rightarrow> jsstring" where
  "str = map of_char"

datatype js_error = Error jsstring | TypeError jsstring

text \<open>
  \<^verbatim>\<open>String.prototype.trim\<close> removes the leading and trailing code units that are
  ECMAScript white space or line terminators.
\<close>

definition is_white_space :: "16 word \<Rightarrow> bool" where
  "is_white_space c \<longleftrightarrow>
     c \<in> {0x09, 0x0A, 0x0B, 0x0C, 0x0D, 0x20, 0xA0, 0x1680, 0x2028, 0x2029, 0x202F,
          0x205F, 0x3000, 0xFEFF}
     \<or> (0x2000 \<le> c \<and> c \<le> 0x200A)"

definition trim :: "jsstring \<Rightarrow> jsstring" where
  "trim s = rev (dropWhile is_white_space (rev (dropWhile is_white_space s)))"

section \<open>services/geminiService.ts\<close>

text \<open>
  Evaluation of the module: \<^verbatim>\<open>process.env.API_KEY\<close> is a string or undefined, and both
  undefined and the empty string are falsy. The module either throws or holds the key
  the client is built with.
\<close>

definition geminiService :: "jsstring option \<Rightarrow> js_error + jsstring" where
  "geminiService API_KEY =
     (case API_KEY of
        None \<Rightarrow> Inl (Error (str ''API_KEY environment variable not set''))
      | Some apiKey \<Rightarrow>
          if apiKey = [] then Inl (Error (str ''API_KEY environment variable not set''))
          else Inr apiKey)"

text \<open>
  What \<^verbatim>\<open>await ai.models.generateContent(...)\<close> gives: a rejection, or a response whose
  \<^verbatim>\<open>text\<close> is a string or undefined (\<^verbatim>\<open>trim\<close> of undefined throws a TypeError inside
  the \<^verbatim>\<open>try\<close>). The prompt sent is built from the two numbers; the reply is an input of
  the model. The inner \<open>case\<close> is the body of the \<^verbatim>\<open>try\<close>, the outer one the
  \<^verbatim>\<open>catch\<close>, which replaces whatever was thrown; logging is left out.
\<close>

datatype api_outcome = Rejected js_error | Response "jsstring option"

definition getTownFromCoordinates :: "rat \<Rightarrow> rat \<Rightarrow> api_outcome \<Rightarrow> js_error + jsstring" where
  "getTownFromCoordinates lat lon outcome =
     (case
        (case outcome of
           Rejected e \<Rightarrow> Inl e
         | Response None \<Rightarrow> Inl (TypeError (str ''Cannot read properties of undefined''))
         | Response (Some text) \<Rightarrow>
             (let townName = trim text
              in if townName = [] then Inl (Error (str ''Received an empty response from the API.''))
                 else Inr (filter (\<lambda>c. c \<noteq> 0x60 \<and> c \<noteq> 0x2A) townName)))
      of Inl error \<Rightarrow> Inl (Error (str ''Failed to fetch town name from Gemini API.''))
       | Inr townName \<Rightarrow> Inr townName)"

section \<open>The App component\<close>

text \<open>
  Modelled from the spec: the enumeration \<^verbatim>\<open>Status\<close> of \<^verbatim>\<open>types.ts\<close>, a file that is
  not among the sources. Its members are the five variants the specification lists,
  under the names the component uses for them.
\<close>

datatype Status = IDLE | LOCATING | GEOCODING | SUCCESS | ERROR

record position =
  lat :: rat
  lon :: rat

record GeolocationCoordinates =
  latitude :: rat
  longitude :: rat

record GeolocationPositionError =
  code :: nat

definition PERMISSION_DENIED :: nat where "PERMISSION_DENIED = 1"
definition POSITION_UNAVAILABLE :: nat where "POSITION_UNAVAILABLE = 2"
definition TIMEOUT :: nat where "TIMEOUT = 3"

text \<open>
  The codes of a \<^verbatim>\<open>GeolocationPositionError\<close> are those of the Geolocation API. The
  component holds three pieces of state and two refs.
\<close>

record app =
  town :: "jsstring option"
  status :: Status
  error :: "jsstring option"
  watchId :: "int option"
  lastPosition :: "position option"

definition initial :: app where
  "initial = \<lparr>town = None, status = IDLE, error = None, watchId = None, lastPosition = None\<rparr>"

text \<open>The arguments of one call \<^verbatim>\<open>getTownFromCoordinates(latitude, longitude)\<close>.\<close>

record request =
  arg_lat :: rat
  arg_lon :: rat

definition msg_lookup_failed :: jsstring where
  "msg_lookup_failed =
     str ''Impossible de d'' @ [0xE9] @ str ''terminer la ville. L'API est peut-'' @ [0xEA]
     @ str ''tre occup'' @ [0xE9] @ str ''e.''"

definition msg_unknown :: jsstring where
  "msg_unknown = str ''Une erreur de localisation inconnue est survenue.''"

definition msg_permission_denied :: jsstring where
  "msg_permission_denied =
     str ''Acc'' @ [0xE8] @ str ''s '' @ [0xE0] @ str '' la localisation refus'' @ [0xE9]
     @ str ''. Veuillez l'activer dans les param'' @ [0xE8] @ str ''tres de votre navigateur.''"

definition msg_position_unavailable :: jsstring where
  "msg_position_unavailable = str ''Les informations de localisation ne sont pas disponibles.''"

definition msg_timeout :: jsstring where
  "msg_timeout =
     str ''La demande de localisation de l'utilisateur a expir'' @ [0xE9] @ str ''.''"

definition msg_unsupported :: jsstring where
  "msg_unsupported =
     str ''La g'' @ [0xE9]
     @ str ''olocalisation n'est pas prise en charge par votre navigateur.''"

text \<open>The condition of the early return of \<^verbatim>\<open>handleLocationUpdate\<close>.\<close>

definition unchanged_location :: "position option \<Rightarrow> rat \<Rightarrow> rat \<Rightarrow> bool" where
  "unchanged_location previous new_lat new_lon =
     (case previous of
        None \<Rightarrow> False
      | Some p \<Rightarrow>
          number_lt (Math_abs (number_sub (lat p) new_lat)) threshold \<and>
          number_lt (Math_abs (number_sub (lon p) new_lon)) threshold)"

text \<open>
  \<^verbatim>\<open>handleLocationUpdate\<close> is an async function. It runs up to its \<^verbatim>\<open>await\<close> when the
  watcher delivers a fix: \<open>handleLocationUpdate_call\<close> returns the state it leaves and the
  resolver calls it has issued. It runs from the \<^verbatim>\<open>await\<close> to its end when the resolver
  call settles: \<open>handleLocationUpdate_settled\<close> takes the outcome of the call and the state
  of that moment.
\<close>

definition handleLocationUpdate_call :: "GeolocationCoordinates \<Rightarrow> app \<Rightarrow> app \<times> request list" where
  "handleLocationUpdate_call coords s =
     (if unchanged_location (lastPosition s) (latitude coords) (longitude coords) then (s, [])
      else (s\<lparr>lastPosition := Some \<lparr>lat = latitude coords, lon = longitude coords\<rparr>,
               status := GEOCODING\<rparr>,
            [\<lparr>arg_lat = latitude coords, arg_lon = longitude coords\<rparr>]))"

definition handleLocationUpdate_settled :: "js_error + jsstring \<Rightarrow> app \<Rightarrow> app" where
  "handleLocationUpdate_settled outcome s =
     (case outcome of
        Inr newTown \<Rightarrow> s\<lparr>town := Some newTown, status := SUCCESS, error := None\<rparr>
      | Inl err \<Rightarrow> s\<lparr>error := Some msg_lookup_failed, status := ERROR\<rparr>)"

text \<open>The handler run from its start to its end, nothing else happening in between.\<close>

definition handleLocationUpdate ::
  "(rat \<Rightarrow> rat \<Rightarrow> js_error + jsstring) \<Rightarrow> GeolocationCoordinates \<Rightarrow> app \<Rightarrow> app" where
  "handleLocationUpdate resolver coords s =
     (case handleLocationUpdate_call coords s of
        (s', []) \<Rightarrow> s'
      | (s', r # _) \<Rightarrow> handleLocationUpdate_settled (resolver (arg_lat r) (arg_lon r)) s')"

definition handleLocationError :: "GeolocationPositionError \<Rightarrow> app \<Rightarrow> app" where
  "handleLocationError err s =
     (let errorMessage =
            (if code err = PERMISSION_DENIED then msg_permission_denied
             else if code err = POSITION_UNAVAILABLE then msg_position_unavailable
             else if code err = TIMEOUT then msg_timeout
             else msg_unknown)
      in s\<lparr>error := Some errorMessage, status := ERROR\<rparr>)"

text \<open>
  The effect run on mount: \<open>geolocation\<close> is the watch identifier that
  \<^verbatim>\<open>watchPosition\<close> returns, or \<open>None\<close> when \<^verbatim>\<open>navigator.geolocation\<close> is missing.
\<close>

definition mount :: "int option \<Rightarrow> app \<Rightarrow> app" where
  "mount geolocation s =
     (case geolocation of
        None \<Rightarrow> s\<lparr>error := Some msg_unsupported, status := ERROR\<rparr>
      | Some wid \<Rightarrow> s\<lparr>status := LOCATING, watchId := Some wid\<rparr>)"

section \<open>The event loop\<close>

text \<open>
  The watcher delivers fixes and errors, and the resolver calls settle, one event at a
  time. \<open>in_flight\<close> holds the calls issued and not yet settled, oldest first;
  \<open>issued\<close> is the log of every call issued. \<open>Settle i outcome\<close> is the settlement of
  the call at position \<open>i\<close> of \<open>in_flight\<close> with that reply of the upstream service; the
  continuation of the handler then runs on the state of that moment.
\<close>

datatype event =
  Fix GeolocationCoordinates
| WatchError GeolocationPositionError
| Settle nat api_outcome

record system =
  ui :: app
  in_flight :: "request list"
  issued :: "request list"

fun step :: "event \<Rightarrow> system \<Rightarrow> system" where
  "step (Fix coords) \<sigma> =
     (case handleLocationUpdate_call coords (ui \<sigma>) of
        (s', calls) \<Rightarrow>
          \<sigma>\<lparr>ui := s', in_flight := in_flight \<sigma> @ calls, issued := issued \<sigma> @ calls\<rparr>)"
| "step (WatchError err) \<sigma> = \<sigma>\<lparr>ui := handleLocationError err (ui \<sigma>)\<rparr>"
| "step (Settle i outcome) \<sigma> =
     (if i < length (in_flight \<sigma>)
      then let r = in_flight \<sigma> ! i
           in \<sigma>\<lparr>ui := handleLocationUpdate_settled
                        (getTownFromCoordinates (arg_lat r) (arg_lon r) outcome) (ui \<sigma>),
                in_flight := take i (in_flight \<sigma>) @ drop (Suc i) (in_flight \<sigma>)\<rparr>
      else \<sigma>)"

fun run :: "event list \<Rightarrow> system \<Rightarrow> system" where
  "run [] \<sigma> = \<sigma>"
| "run (e # es) \<sigma> = run es (step e \<sigma>)"

definition start :: "int option \<Rightarrow> system" where
  "start geolocation = \<lparr>ui = mount geolocation initial, in_flight = [], issued = []\<rparr>"

text \<open>
  The application: the component module imports the service module, so an error thrown
  while the service module is evaluated is the outcome of the whole program.
\<close>

definition application :: "jsstring option \<Rightarrow> int option \<Rightarrow> event list \<Rightarrow> js_error + system" where
  "application API_KEY geolocation events =
     (case geminiService API_KEY of
        Inl e \<Rightarrow> Inl e
      | Inr apiKey \<Rightarrow> Inr (run events (start geolocation)))"

section \<open>Sample inputs\<close>

text \<open>
  The binary64 values of the literals \<^verbatim>\<open>45.00005\<close>, \<^verbatim>\<open>45.0002\<close>, \<^verbatim>\<open>4.8\<close> and
  \<^verbatim>\<open>0.0001\<close>; \<open>45\<close>, \<open>1\<close> and \<open>0\<close> are binary64 values as they are.
\<close>

definition lat_45_00005 :: rat where "lat_45_00005 = 3166597006432089 / 70368744177664"
definition lat_45_0002 :: rat where "lat_45_0002 = 6333215123487431 / 140737488355328"
definition lon_4_8 :: rat where "lon_4_8 = 5404319552844595 / 1125899906842624"
definition lat_0_0001 :: rat where "lat_0_0001 = 7378697629483821 / 73786976294838206464"

text \<open>
  The midpoint of the binary64 value of \<^verbatim>\<open>0.0001\<close> and the binary64 value next
  below it, \<open>(2 * 7378697629483821 - 1) / 2 ^ 67\<close>.
\<close>

definition reject_bound :: rat where
  "reject_bound = 14757395258967641 / 147573952589676412928"

text \<open>A latitude of \<open>3 / 2 ^ 69\<close> degrees, a binary64 value too.\<close>

definition lat_3_2_69 :: rat where "lat_3_2_69 = 3 / 590295810358705651712"

text \<open>A first lookup at \<open>(45, 4.8)\<close> has succeeded with Lyon; nothing is in flight.\<close>

definition seen_45_4_8 :: system where
  "seen_45_4_8 =
     \<lparr>ui = \<lparr>town = Some (str ''Lyon''), status = SUCCESS, error = None, watchId = Some 1,
             lastPosition = Some \<lparr>lat = 45, lon = lon_4_8\<rparr>\<rparr>,
      in_flight = [], issued = [\<lparr>arg_lat = 45, arg_lon = lon_4_8\<rparr>]\<rparr>"

text \<open>A first lookup at \<open>(0, 0)\<close> has failed.\<close>

definition seen_origin :: app where
  "seen_origin =
     \<lparr>town = None, status = ERROR, error = Some msg_lookup_failed, watchId = Some 1,
      lastPosition = Some \<lparr>lat = 0, lon = 0\<rparr>\<rparr>"

text \<open>A first lookup at \<open>(0.0001, 0)\<close> has succeeded with Lyon.\<close>

definition seen_0_0001 :: app where
  "seen_0_0001 =
     \<lparr>town = Some (str ''Lyon''), status = SUCCESS, error = None, watchId = Some 1,
      lastPosition = Some \<lparr>lat = lat_0_0001, lon = 0\<rparr>\<rparr>"

text \<open>A first lookup at \<open>(0, 0)\<close> has succeeded with Lyon.\<close>

definition lyon_at_origin :: app where
  "lyon_at_origin =
     \<lparr>town = Some (str ''Lyon''), status = SUCCESS, error = None, watchId = Some 1,
      lastPosition = Some \<lparr>lat = 0, lon = 0\<rparr>\<rparr>"

text \<open>The coordinate of the most recent resolver call issued, if any.\<close>

definition last_issued :: "system \<Rightarrow> position option" where
  "last_issued \<sigma> =
     (case rev (issued \<sigma>) of
        [] \<Rightarrow> None
      | r # _ \<Rightarrow> Some \<lparr>lat = arg_lat r, lon = arg_lon r\<rparr>)"

section \<open>Properties of the rounding\<close>

text \<open>
  The exponent found is the right one, the rounded value lies on the grid of its binade
  and within half a unit in the last place of the exact one, and a value on the grid
  below \<open>2 ^ 1024\<close> is left as it is.
\<close>

lemma pow2_powi: "pow2 e = 2 powi e"
  by (simp add: pow2_def power_int_def inverse_eq_divide power_one_over)

lemma pow2_pos: "0 < pow2 e"
  by (simp add: pow2_powi)

lemma bit_length_rec: "0 < n \<Longrightarrow> bit_length n = 1 + bit_length (n div 2)"
  by (simp add: bit_length.simps [of n])

lemma bit_length_bounds:
  "0 < n \<Longrightarrow> 0 < bit_length n \<and> 2 ^ nat (bit_length n - 1) \<le> n \<and> n < 2 ^ nat (bit_length n)"
proof (induction n rule: bit_length.induct)
  case (1 n)
  show ?case
  proof (cases "n = 1")
    case True
    then show ?thesis
      by (simp add: bit_length.simps [of 1] bit_length.simps [of 0])
  next
    case False
    with "1.prems" have h: "0 < n div 2" by simp
    with "1.IH" "1.prems" have pos: "0 < bit_length (n div 2)"
      and lo: "2 ^ nat (bit_length (n div 2) - 1) \<le> n div 2"
      and hi: "n div 2 < 2 ^ nat (bit_length (n div 2))"
      by simp_all
    have bl: "bit_length n = bit_length (n div 2) + 1"
      using "1.prems" by (simp add: bit_length_rec)
    from pos have suc: "nat (bit_length (n div 2)) = Suc (nat (bit_length (n div 2) - 1))"
      by simp
    from pos have suc': "nat (bit_length (n div 2) + 1) = Suc (nat (bit_length (n div 2)))"
      by simp
    have "(2::int) ^ nat (bit_length (n div 2)) = 2 * 2 ^ nat (bit_length (n div 2) - 1)"
      by (subst suc) simp
    also have "\<dots> \<le> 2 * (n div 2)"
      using lo by simp
    also have "\<dots> \<le> n"
      by simp
    finally have 1: "2 ^ nat (bit_length n - 1) \<le> n"
      by (simp add: bl)
    have "n < 2 * (n div 2 + 1)"
      by simp
    also have "\<dots> \<le> 2 * 2 ^ nat (bit_length (n div 2))"
      using hi by simp
    also have "\<dots> = 2 ^ nat (bit_length n)"
      by (simp add: bl suc')
    finally have 2: "n < 2 ^ nat (bit_length n)" .
    from pos 1 2 show ?thesis
      by (simp add: bl)
  qed
qed

lemma pow2_nat: "0 \<le> e \<Longrightarrow> pow2 e = of_int (2 ^ nat e)"
  by (simp add: pow2_def)

lemma pow2_neg: "0 \<le> k \<Longrightarrow> pow2 (- k) = 1 / of_int (2 ^ nat k)"
  by (cases "k = 0") (simp_all add: pow2_def)

lemma floor_log2_bounds:
  assumes "0 < q"
  shows "pow2 (floor_log2 q) \<le> q \<and> q < pow2 (floor_log2 q + 1)"
proof (cases "1 \<le> q")
  case True
  then have n: "0 < \<lfloor>q\<rfloor>"
    by simp
  from bit_length_bounds [OF n]
  have pos: "0 < bit_length \<lfloor>q\<rfloor>"
    and lo: "2 ^ nat (bit_length \<lfloor>q\<rfloor> - 1) \<le> \<lfloor>q\<rfloor>"
    and hi: "\<lfloor>q\<rfloor> < 2 ^ nat (bit_length \<lfloor>q\<rfloor>)"
    by simp_all
  have "pow2 (bit_length \<lfloor>q\<rfloor> - 1) = of_int (2 ^ nat (bit_length \<lfloor>q\<rfloor> - 1))"
    using pos by (simp add: pow2_nat)
  also have "\<dots> \<le> of_int \<lfloor>q\<rfloor>"
    using lo by (simp only: of_int_le_iff)
  also have "\<dots> \<le> q"
    by simp
  finally have 1: "pow2 (bit_length \<lfloor>q\<rfloor> - 1) \<le> q" .
  from hi have "\<lfloor>q\<rfloor> + 1 \<le> 2 ^ nat (bit_length \<lfloor>q\<rfloor>)"
    by simp
  then have "of_int (\<lfloor>q\<rfloor> + 1) \<le> (of_int (2 ^ nat (bit_length \<lfloor>q\<rfloor>)) :: rat)"
    by (simp only: of_int_le_iff)
  moreover have "q < of_int (\<lfloor>q\<rfloor> + 1)"
    using floor_correct [of q] by simp
  ultimately have "q < of_int (2 ^ nat (bit_length \<lfloor>q\<rfloor>))"
    by (rule less_le_trans [rotated])
  then have 2: "q < pow2 (bit_length \<lfloor>q\<rfloor>)"
    using pos by (simp add: pow2_nat)
  from True 1 2 show ?thesis
    by (simp add: floor_log2_def)
next
  case False
  with assms have inv: "1 < 1 / q"
    by simp
  define m where "m = \<lceil>1 / q\<rceil> - 1"
  from inv have m: "0 < m"
    unfolding m_def by (simp add: less_ceiling_iff)
  have below: "of_int m < 1 / q" and above: "1 / q \<le> of_int (m + 1)"
    unfolding m_def using ceiling_correct [of "1 / q"] by simp_all
  from bit_length_bounds [OF m]
  have pos: "0 < bit_length m"
    and lo: "2 ^ nat (bit_length m - 1) \<le> m"
    and hi: "m < 2 ^ nat (bit_length m)"
    by simp_all
  from hi have "m + 1 \<le> 2 ^ nat (bit_length m)"
    by simp
  then have "of_int (m + 1) \<le> (of_int (2 ^ nat (bit_length m)) :: rat)"
    by (simp only: of_int_le_iff)
  with above have "1 / q \<le> of_int (2 ^ nat (bit_length m))"
    by (rule order_trans)
  with assms have "1 / of_int (2 ^ nat (bit_length m)) \<le> q"
    by (simp add: field_simps)
  then have 1: "pow2 (- bit_length m) \<le> q"
    using pos by (simp add: pow2_neg)
  from lo have "(of_int (2 ^ nat (bit_length m - 1)) :: rat) \<le> of_int m"
    by (simp only: of_int_le_iff)
  from this below have "of_int (2 ^ nat (bit_length m - 1)) < 1 / q"
    by (rule le_less_trans)
  with assms have "q < 1 / of_int (2 ^ nat (bit_length m - 1))"
    by (simp add: field_simps)
  then have 2: "q < pow2 (- bit_length m + 1)"
    using pos pow2_neg [of "bit_length m - 1"] by simp
  from False 1 2 show ?thesis
    by (simp add: floor_log2_def m_def)
qed

lemma round_half_even_int: "round_half_even (of_int k) = k"
  by (simp add: round_half_even_def)

lemma round_half_even_near: "\<bar>of_int (round_half_even q) - q\<bar> \<le> 1 / 2"
proof -
  have "of_int \<lfloor>q\<rfloor> \<le> q" and "q < of_int \<lfloor>q\<rfloor> + 1"
    using floor_correct [of q] by simp_all
  then show ?thesis
    unfolding round_half_even_def Let_def by (simp add: abs_if) linarith
qed


lemma to_binary64_unfold:
  assumes "q \<noteq> 0"
    and "ulp = pow2 (max (floor_log2 \<bar>q\<bar>) (- 1022) - 52)"
    and "k = round_half_even (\<bar>q\<bar> / ulp)"
  shows "to_binary64 q =
           (if pow2 1024 \<le> of_int k * ulp then (if 0 < q then PosInfinity else NegInfinity)
            else Num (if 0 < q then of_int k * ulp else - (of_int k * ulp)))"
  unfolding to_binary64_def Let_def assms(2,3) by (simp only: assms(1) if_False)

lemma to_binary64_exact:
  assumes "\<bar>q\<bar> = of_int k * pow2 (max (floor_log2 \<bar>q\<bar>) (- 1022) - 52)"
    and "\<bar>q\<bar> < pow2 1024"
  shows "to_binary64 q = Num q"
proof (cases "q = 0")
  case True
  then show ?thesis
    by (simp add: to_binary64_def)
next
  case False
  define ulp where "ulp = pow2 (max (floor_log2 \<bar>q\<bar>) (- 1022) - 52)"
  have "0 < ulp"
    unfolding ulp_def by (rule pow2_pos)
  then have "of_int k * ulp / ulp = of_int k"
    by simp
  with assms(1) [folded ulp_def] have "\<bar>q\<bar> / ulp = of_int k"
    by simp
  then have "round_half_even (\<bar>q\<bar> / ulp) = k"
    by (simp add: round_half_even_int)
  from to_binary64_unfold [OF False ulp_def this [symmetric]] assms(2)
    assms(1) [folded ulp_def, symmetric]
  show ?thesis
    by (simp add: abs_if split: if_splits)
qed

lemma to_binary64_near:
  assumes "to_binary64 q = Num r" and "q \<noteq> 0"
  shows "\<bar>r - q\<bar> \<le> pow2 (max (floor_log2 \<bar>q\<bar>) (- 1022) - 52) / 2 \<and>
         (\<exists>k. r = of_int k * pow2 (max (floor_log2 \<bar>q\<bar>) (- 1022) - 52))"
proof -
  define ulp where "ulp = pow2 (max (floor_log2 \<bar>q\<bar>) (- 1022) - 52)"
  define k where "k = round_half_even (\<bar>q\<bar> / ulp)"
  have ulp: "0 < ulp"
    unfolding ulp_def by (rule pow2_pos)
  from assms(1) to_binary64_unfold [OF assms(2) ulp_def k_def]
  have r: "r = (if 0 < q then of_int k * ulp else - (of_int k * ulp))"
    by (simp split: if_splits)
  have "\<bar>of_int k - \<bar>q\<bar> / ulp\<bar> \<le> 1 / 2"
    unfolding k_def by (rule round_half_even_near)
  then have "\<bar>of_int k - \<bar>q\<bar> / ulp\<bar> * ulp \<le> 1 / 2 * ulp"
    using ulp by (simp only: mult_le_cancel_right_pos)
  moreover have "\<bar>of_int k - \<bar>q\<bar> / ulp\<bar> * ulp = \<bar>(of_int k - \<bar>q\<bar> / ulp) * ulp\<bar>"
    using ulp by (simp only: abs_mult abs_of_pos)
  moreover have "(of_int k - \<bar>q\<bar> / ulp) * ulp = of_int k * ulp - \<bar>q\<bar>"
    using ulp by (simp add: left_diff_distrib)
  ultimately have near: "\<bar>of_int k * ulp - \<bar>q\<bar>\<bar> \<le> ulp / 2"
    by simp
  have "\<bar>r - q\<bar> = \<bar>of_int k * ulp - \<bar>q\<bar>\<bar>"
  proof (cases "0 < q")
    case True
    then show ?thesis
      by (simp add: r)
  next
    case False
    with assms(2) have "r - q = - (of_int k * ulp - \<bar>q\<bar>)"
      by (simp add: r)
    then show ?thesis
      by (simp only: abs_minus_cancel)
  qed
  with near have 1: "\<bar>r - q\<bar> \<le> ulp / 2"
    by simp
  have 2: "\<exists>j. r = of_int j * ulp"
  proof (cases "0 < q")
    case True
    then show ?thesis
      by (auto simp: r)
  next
    case False
    then have "r = of_int (- k) * ulp"
      by (simp add: r)
    then show ?thesis ..
  qed
  from 1 2 show ?thesis
    by (simp add: ulp_def)
qed

section \<open>Evaluating the arithmetic\<close>

lemma floor_rat_numeral:
  "\<lfloor>numeral a / numeral b :: rat\<rfloor> = numeral a div numeral b"
  "\<lfloor>1 / numeral b :: rat\<rfloor> = 1 div numeral b"
  using floor_divide_of_int_eq [of "numeral a" "numeral b", where ?'a = rat]
    floor_divide_of_int_eq [of 1 "numeral b", where ?'a = rat]
  by simp_all

lemma ceiling_rat_numeral:
  "\<lceil>numeral a / numeral b :: rat\<rceil> = - (- numeral a div numeral b)"
  "\<lceil>1 / numeral b :: rat\<rceil> = - (- 1 div numeral b)"
  using floor_divide_of_int_eq [of "- numeral a" "numeral b", where ?'a = rat]
    floor_divide_of_int_eq [of "- 1" "numeral b", where ?'a = rat]
  by (simp_all add: ceiling_def)

lemmas binary64_eval =
  to_binary64_def floor_log2_def round_half_even_def pow2_def bit_length.simps Let_def
  floor_rat_numeral ceiling_rat_numeral

lemma threshold_value: "threshold = Num (7378697629483821 / 73786976294838206464)"
  by (simp add: threshold_def binary64_eval)

lemma literal_values:
  "to_binary64 (4500005 / 100000) = Num lat_45_00005"
  "to_binary64 (450002 / 10000) = Num lat_45_0002"
  "to_binary64 (48 / 10) = Num lon_4_8"
  "to_binary64 (1 / 10000) = Num lat_0_0001"
  "to_binary64 (1 / 10) = Num (3602879701896397 / 36028797018963968)"
  by (simp_all add: lat_45_00005_def lat_45_0002_def lon_4_8_def lat_0_0001_def binary64_eval)

lemma number_sub_self: "number_sub x x = Num 0"
  by (simp add: number_sub_def to_binary64_def)

lemma scenario_sub:
  "number_sub 45 lat_45_00005 = Num (- (3518437209 / 70368744177664))"
  "number_sub 45 lat_45_0002 = Num (- (28147497671 / 140737488355328))"
  "number_sub lon_4_8 lon_4_8 = Num 0"
  "number_sub 0 lat_0_0001 = Num (- lat_0_0001)"
  "number_sub 0 1 = Num (- 1)"
  by (simp_all add: number_sub_self)
    (simp_all add: number_sub_def lat_45_00005_def lat_45_0002_def lat_0_0001_def binary64_eval)

text \<open>
  The comparisons of the handler are on the rounded differences. Next to the threshold
  they are not the comparisons of the exact ones: with a stored latitude of
  \<^verbatim>\<open>0.0001\<close> and a new one of \<open>3 / 2 ^ 69\<close>, both of them binary64 values, the
  exact difference is below \<open>1 / 10000\<close> and the computed one is the threshold
  itself.
\<close>

lemma rounded_difference_at_threshold:
  "to_binary64 lat_0_0001 = Num lat_0_0001"
  "to_binary64 lat_3_2_69 = Num lat_3_2_69"
  "\<bar>lat_0_0001 - lat_3_2_69\<bar> < 1 / 10000"
  "number_sub lat_0_0001 lat_3_2_69 = threshold"
  by (simp_all add: threshold_value)
    (simp_all add: number_sub_def lat_0_0001_def lat_3_2_69_def binary64_eval)

lemma number_ge_iff: "number_ge a b \<longleftrightarrow> \<not> number_lt a b"
  by (cases a; cases b) auto

lemma unchanged_location_same: "unchanged_location (Some \<lparr>lat = x, lon = y\<rparr>) x y"
  by (simp add: unchanged_location_def number_sub_self threshold_value)

section \<open>The threshold on exact differences\<close>

text \<open>
  The rounded value of \<open>q\<close> is below the threshold in absolute value exactly when
  \<open>|q|\<close> is at most \<open>reject_bound\<close>: at the midpoint the tie goes to the even
  neighbour, which is the one below the threshold. The bound is below \<open>1 / 10000\<close>, so
  the early return of the handler is taken for fewer exact differences than those below
  \<open>1 / 10000\<close>.
\<close>

lemma pow2_mono: "e1 \<le> e2 \<Longrightarrow> pow2 e1 \<le> pow2 e2"
  by (simp add: pow2_powi power_int_increasing)

lemma pow2_less_imp: "pow2 e1 < pow2 e2 \<Longrightarrow> e1 < e2"
  using pow2_mono [of e2 e1] by (cases "e1 < e2") simp_all

lemma pow2_split:
  "pow2 (e + 1) = 2 ^ 53 * pow2 (e - 52)"
  "pow2 e = 2 ^ 52 * pow2 (e - 52)"
proof -
  have "(2::rat) powi (53 + (e - 52)) = 2 powi 53 * 2 powi (e - 52)"
    by (rule power_int_add) simp
  then show "pow2 (e + 1) = 2 ^ 53 * pow2 (e - 52)"
    by (simp add: pow2_powi add.commute)
  have "(2::rat) powi (52 + (e - 52)) = 2 powi 52 * 2 powi (e - 52)"
    by (rule power_int_add) simp
  then show "pow2 e = 2 ^ 52 * pow2 (e - 52)"
    by (simp add: pow2_powi)
qed

lemma round_half_even_ge: "of_int n \<le> x \<Longrightarrow> n \<le> round_half_even x"
proof -
  assume "of_int n \<le> x"
  then have "n \<le> \<lfloor>x\<rfloor>" by (simp add: le_floor_iff)
  then show ?thesis
    by (simp add: round_half_even_def Let_def)
qed

lemma round_half_even_le: "x \<le> of_int n \<Longrightarrow> round_half_even x \<le> n"
proof (cases "x = of_int n")
  case True
  then show ?thesis by (simp add: round_half_even_int)
next
  case False
  assume "x \<le> of_int n"
  with False have "x < of_int n" by simp
  then have "\<lfloor>x\<rfloor> < n" by (simp add: floor_less_iff)
  then show ?thesis
    by (simp add: round_half_even_def Let_def)
qed

lemma round_half_even_le_even:
  assumes "even n" and "x \<le> of_int n + 1 / 2"
  shows "round_half_even x \<le> n"
proof -
  have fl: "of_int \<lfloor>x\<rfloor> \<le> x" "x < of_int \<lfloor>x\<rfloor> + 1"
    using floor_correct [of x] by simp_all
  from assms(2) have "\<lfloor>x\<rfloor> \<le> n"
    by (simp add: floor_le_iff)
  then consider "\<lfloor>x\<rfloor> < n" | "\<lfloor>x\<rfloor> = n" by linarith
  then show ?thesis
  proof cases
    case 1
    then show ?thesis by (simp add: round_half_even_def Let_def)
  next
    case 2
    with assms show ?thesis
      by (simp add: round_half_even_def Let_def)
  qed
qed

lemma round_half_even_gt:
  assumes "of_int n + 1 / 2 < x"
  shows "n + 1 \<le> round_half_even x"
proof -
  from assms have "of_int n \<le> x" by simp
  then have "n \<le> \<lfloor>x\<rfloor>" by (simp add: le_floor_iff)
  then consider "n < \<lfloor>x\<rfloor>" | "\<lfloor>x\<rfloor> = n" by linarith
  then show ?thesis
  proof cases
    case 1
    then show ?thesis by (simp add: round_half_even_def Let_def)
  next
    case 2
    with assms show ?thesis
      by (simp add: round_half_even_def Let_def)
  qed
qed


lemma abs_to_binary64:
  assumes "q \<noteq> 0"
    and "ulp = pow2 (max (floor_log2 \<bar>q\<bar>) (- 1022) - 52)"
    and "k = round_half_even (\<bar>q\<bar> / ulp)"
  shows "Math_abs (to_binary64 q) =
           (if pow2 1024 \<le> of_int k * ulp then PosInfinity else Num (of_int k * ulp))"
proof -
  have "0 < ulp"
    unfolding assms(2) by (rule pow2_pos)
  then have "0 \<le> \<bar>q\<bar> / ulp"
    by simp
  then have "0 \<le> k"
    unfolding assms(3) using round_half_even_ge [of 0 "\<bar>q\<bar> / ulp"] by simp
  with \<open>0 < ulp\<close> have "0 \<le> of_int k * ulp"
    by simp
  then show ?thesis
    by (simp add: to_binary64_unfold [OF assms])
qed

lemma threshold_bounds:
  "threshold = Num (7378697629483821 * pow2 (- 66))"
  "pow2 (- 14) \<le> reject_bound" "reject_bound < pow2 (- 13)"
  "7378697629483821 * pow2 (- 66) < pow2 (- 13)"
  "7378697629483821 * pow2 (- 66) < pow2 1024"
  "pow2 (- 14) < 7378697629483821 * pow2 (- 66)"
  by (simp_all add: threshold_value pow2_def reject_bound_def)


lemma rounded_below_threshold_iff:
  "number_lt (Math_abs (to_binary64 q)) threshold \<longleftrightarrow> \<bar>q\<bar> \<le> reject_bound"
proof (cases "q = 0")
  case True
  then show ?thesis
    by (simp add: to_binary64_def threshold_value reject_bound_def)
next
  case False
  define a where "a = \<bar>q\<bar>"
  define e where "e = max (floor_log2 a) (- 1022)"
  define ulp where "ulp = pow2 (e - 52)"
  define k where "k = round_half_even (a / ulp)"
  from False have a: "0 < a"
    by (simp add: a_def)
  have ulp: "0 < ulp"
    unfolding ulp_def by (rule pow2_pos)
  from floor_log2_bounds [OF a]
  have lo: "pow2 (floor_log2 a) \<le> a" and hi: "a < pow2 (floor_log2 a + 1)"
    by simp_all
  have "Math_abs (to_binary64 q) =
          (if pow2 1024 \<le> of_int k * ulp then PosInfinity else Num (of_int k * ulp))"
    using False by (rule abs_to_binary64) (simp_all add: ulp_def e_def a_def k_def)
  then have lhs: "number_lt (Math_abs (to_binary64 q)) threshold \<longleftrightarrow>
                  of_int k * ulp < 7378697629483821 * pow2 (- 66)"
    using threshold_bounds(5) by (simp add: threshold_bounds(1))
  consider (small) "a < pow2 (- 14)" | (binade) "pow2 (- 14) \<le> a" "a < pow2 (- 13)"
    | (large) "pow2 (- 13) \<le> a"
    by linarith
  then have "of_int k * ulp < 7378697629483821 * pow2 (- 66) \<longleftrightarrow> a \<le> reject_bound"
  proof cases
    case small
    with lo have "pow2 (floor_log2 a) < pow2 (- 14)"
      by simp
    then have "floor_log2 a < - 14"
      by (rule pow2_less_imp)
    then have e: "e + 1 \<le> - 14" and fe: "floor_log2 a + 1 \<le> e + 1"
      by (simp_all add: e_def)
    from hi pow2_mono [OF fe] have "a < pow2 (e + 1)"
      by simp
    then have "a < 2 ^ 53 * ulp"
      by (simp add: pow2_split(1) ulp_def)
    with ulp have "a / ulp \<le> of_int (2 ^ 53)"
      by (simp add: field_simps)
    then have "k \<le> 2 ^ 53"
      unfolding k_def by (rule round_half_even_le)
    then have "(of_int k :: rat) \<le> of_int (2 ^ 53)"
      by (simp only: of_int_le_iff)
    with ulp have "of_int k * ulp \<le> 2 ^ 53 * ulp"
      by simp
    also have "\<dots> = pow2 (e + 1)"
      by (simp add: pow2_split(1) ulp_def)
    also have "\<dots> \<le> pow2 (- 14)"
      using e by (rule pow2_mono)
    also have "\<dots> < 7378697629483821 * pow2 (- 66)"
      by (rule threshold_bounds)
    finally have "of_int k * ulp < 7378697629483821 * pow2 (- 66)" .
    moreover from small threshold_bounds(2) have "a \<le> reject_bound"
      by simp
    ultimately show ?thesis
      by simp
  next
    case binade
    from lo binade(2) have "pow2 (floor_log2 a) < pow2 (- 13)"
      by simp
    then have "floor_log2 a < - 13"
      by (rule pow2_less_imp)
    moreover from binade(1) hi have "pow2 (- 14) < pow2 (floor_log2 a + 1)"
      by simp
    then have "- 14 < floor_log2 a + 1"
      by (rule pow2_less_imp)
    ultimately have "e = - 14"
      by (simp add: e_def)
    then have u: "ulp = pow2 (- 66)"
      by (simp add: ulp_def)
    have half: "reject_bound / pow2 (- 66) = of_int 7378697629483820 + 1 / 2"
      by (simp add: reject_bound_def pow2_def)
    have "of_int k * ulp < 7378697629483821 * pow2 (- 66) \<longleftrightarrow> k \<le> 7378697629483820"
    proof -
      have "of_int k * ulp < 7378697629483821 * pow2 (- 66) \<longleftrightarrow>
            (of_int k :: rat) < of_int 7378697629483821"
        using ulp by (simp add: u)
      also have "\<dots> \<longleftrightarrow> k < 7378697629483821"
        by (simp only: of_int_less_iff)
      finally show ?thesis
        by auto
    qed
    moreover have "k \<le> 7378697629483820 \<longleftrightarrow> a \<le> reject_bound"
    proof
      assume k: "k \<le> 7378697629483820"
      show "a \<le> reject_bound"
      proof (rule ccontr)
        assume "\<not> a \<le> reject_bound"
        then have "reject_bound / pow2 (- 66) < a / ulp"
          using ulp by (simp add: u divide_strict_right_mono)
        then have "of_int 7378697629483820 + 1 / 2 < a / ulp"
          by (simp only: half)
        then have "7378697629483820 + 1 \<le> k"
          unfolding k_def by (rule round_half_even_gt)
        with k show False
          by simp
      qed
    next
      assume "a \<le> reject_bound"
      then have "a / ulp \<le> reject_bound / pow2 (- 66)"
        using ulp by (simp add: u divide_right_mono)
      then have "a / ulp \<le> of_int 7378697629483820 + 1 / 2"
        by (simp only: half)
      then show "k \<le> 7378697629483820"
        unfolding k_def by (rule round_half_even_le_even [rotated]) simp
    qed
    ultimately show ?thesis
      by simp
  next
    case large
    with hi have "pow2 (- 13) < pow2 (floor_log2 a + 1)"
      by simp
    then have "- 13 < floor_log2 a + 1"
      by (rule pow2_less_imp)
    then have e: "e = floor_log2 a" and e13: "- 13 \<le> e"
      by (simp_all add: e_def)
    from lo have "2 ^ 52 * ulp \<le> a"
      using pow2_split(2) [of e] by (simp add: e ulp_def)
    with ulp have "of_int (2 ^ 52) \<le> a / ulp"
      by (simp add: field_simps)
    then have "2 ^ 52 \<le> k"
      unfolding k_def by (rule round_half_even_ge)
    then have "(of_int (2 ^ 52) :: rat) \<le> of_int k"
      by (simp only: of_int_le_iff)
    with ulp have "2 ^ 52 * ulp \<le> of_int k * ulp"
      by simp
    moreover have "2 ^ 52 * ulp = pow2 e"
      using pow2_split(2) [of e] by (simp add: ulp_def)
    moreover have "pow2 (- 13) \<le> pow2 e"
      using e13 by (rule pow2_mono)
    ultimately have "pow2 (- 13) \<le> of_int k * ulp"
      by simp
    with threshold_bounds(4) have "\<not> of_int k * ulp < 7378697629483821 * pow2 (- 66)"
      by simp
    moreover from large threshold_bounds(3) have "\<not> a \<le> reject_bound"
      by simp
    ultimately show ?thesis
      by simp
  qed
  with lhs show ?thesis
    by (simp add: a_def)
qed

lemma reject_bound_below:
  "reject_bound = lat_0_0001 - 1 / 2 ^ 67"
  "reject_bound < 1 / 10000"
  "1 / 10000 < lat_0_0001"
  by (simp_all add: reject_bound_def lat_0_0001_def)

lemma unchanged_location_exact:
  "unchanged_location (Some p) x y \<longleftrightarrow>
     \<bar>lat p - x\<bar> \<le> reject_bound \<and> \<bar>lon p - y\<bar> \<le> reject_bound"
  by (simp add: unchanged_location_def number_sub_def rounded_below_threshold_iff)

section \<open>The significance filter\<close>

text \<open>
  Against C1 as it is worded: with \<open>(0.0001, 0)\<close> stored, the fix \<open>(3 / 2 ^ 69, 0)\<close>
  has both exact differences below \<open>1 / 10000\<close>, and so below the binary64 value of
  \<^verbatim>\<open>0.0001\<close> as well; all the coordinates are binary64 values. The latitude
  difference that the handler computes is rounded to the threshold itself, which is not
  below the threshold, and the handler accepts the fix.
\<close>

theorem exact_difference_below_accepted:
  "to_binary64 lat_0_0001 = Num lat_0_0001 \<and>
   to_binary64 lat_3_2_69 = Num lat_3_2_69 \<and>
   \<bar>lat_0_0001 - lat_3_2_69\<bar> < 1 / 10000 \<and>
   \<bar>0 - 0 :: rat\<bar> < 1 / 10000 \<and>
   number_lt (Num \<bar>lat_0_0001 - lat_3_2_69\<bar>) threshold \<and>
   number_lt (Num \<bar>0 - 0\<bar>) threshold \<and>
   Math_abs (number_sub lat_0_0001 lat_3_2_69) = threshold \<and>
   handleLocationUpdate_call \<lparr>latitude = lat_3_2_69, longitude = 0\<rparr> seen_0_0001 =
     (seen_0_0001\<lparr>lastPosition := Some \<lparr>lat = lat_3_2_69, lon = 0\<rparr>, status := GEOCODING\<rparr>,
      [\<lparr>arg_lat = lat_3_2_69, arg_lon = 0\<rparr>])"
proof -
  have "number_lt (Num \<bar>lat_0_0001 - lat_3_2_69\<bar>) threshold"
    by (simp add: threshold_value) (simp add: lat_0_0001_def lat_3_2_69_def)
  moreover have "number_lt (Num \<bar>0 - 0\<bar>) threshold"
    by (simp add: threshold_value)
  moreover have "Math_abs (number_sub lat_0_0001 lat_3_2_69) = threshold"
    by (simp add: rounded_difference_at_threshold) (simp add: threshold_value)
  moreover have
    "handleLocationUpdate_call \<lparr>latitude = lat_3_2_69, longitude = 0\<rparr> seen_0_0001 =
       (seen_0_0001\<lparr>lastPosition := Some \<lparr>lat = lat_3_2_69, lon = 0\<rparr>, status := GEOCODING\<rparr>,
        [\<lparr>arg_lat = lat_3_2_69, arg_lon = 0\<rparr>])"
    by (simp add: handleLocationUpdate_call_def unchanged_location_def seen_0_0001_def
        rounded_difference_at_threshold)
      (simp add: threshold_value)
  ultimately show ?thesis
    using rounded_difference_at_threshold by simp
qed

text \<open>
  C1, amended. Whenever a last accepted coordinate \<open>a\<close> is stored and the differences
  \<open>a.lat - b.lat\<close> and \<open>a.lon - b.lon\<close> to the new fix \<open>b\<close>, as the handler computes them
  (each rounded to binary64), are both below the binary64 value of \<^verbatim>\<open>0.0001\<close> in
  absolute value, the update handler rejects \<open>b\<close>: it issues no resolver call and leaves
  the whole state as it is (status, last accepted coordinate, resolved town and error
  message), whatever the resolver would answer; nothing is added to the calls in flight.
\<close>

theorem insignificant_fix_rejected:
  assumes "lastPosition (ui \<sigma>) = Some a"
    and "number_lt (Math_abs (number_sub (lat a) (latitude b))) threshold"
    and "number_lt (Math_abs (number_sub (lon a) (longitude b))) threshold"
  shows "handleLocationUpdate_call b (ui \<sigma>) = (ui \<sigma>, []) \<and>
         handleLocationUpdate resolver b (ui \<sigma>) = ui \<sigma> \<and>
         step (Fix b) \<sigma> = \<sigma>"
proof -
  from assms have "unchanged_location (lastPosition (ui \<sigma>)) (latitude b) (longitude b)"
    by (simp add: unchanged_location_def)
  then have "handleLocationUpdate_call b (ui \<sigma>) = (ui \<sigma>, [])"
    by (simp add: handleLocationUpdate_call_def)
  then show ?thesis
    by (simp add: handleLocationUpdate_def)
qed

text \<open>The second fix of the scenario, \<open>(45.00005, 4.8)\<close> after \<open>(45, 4.8)\<close>, is dropped.\<close>

theorem insignificant_fix_rejected_witness:
  "lastPosition (ui seen_45_4_8) = Some \<lparr>lat = 45, lon = lon_4_8\<rparr> \<and>
   number_lt (Math_abs (number_sub 45 lat_45_00005)) threshold \<and>
   number_lt (Math_abs (number_sub lon_4_8 lon_4_8)) threshold \<and>
   handleLocationUpdate_call \<lparr>latitude = lat_45_00005, longitude = lon_4_8\<rparr> (ui seen_45_4_8)
     = (ui seen_45_4_8, []) \<and>
   step (Fix \<lparr>latitude = lat_45_00005, longitude = lon_4_8\<rparr>) seen_45_4_8 = seen_45_4_8"
proof -
  have 1: "lastPosition (ui seen_45_4_8) = Some \<lparr>lat = 45, lon = lon_4_8\<rparr>"
    by (simp add: seen_45_4_8_def)
  have 2: "number_lt (Math_abs (number_sub (lat \<lparr>lat = 45, lon = lon_4_8\<rparr>)
             (latitude \<lparr>latitude = lat_45_00005, longitude = lon_4_8\<rparr>))) threshold"
    by (simp add: scenario_sub threshold_value)
  have 3: "number_lt (Math_abs (number_sub (lon \<lparr>lat = 45, lon = lon_4_8\<rparr>)
             (longitude \<lparr>latitude = lat_45_00005, longitude = lon_4_8\<rparr>))) threshold"
    by (simp add: scenario_sub threshold_value)
  from insignificant_fix_rejected [OF 1 2 3] 1 2 3 show ?thesis
    by simp
qed

text \<open>
  C2. Whenever no last accepted coordinate is stored, or the latitude delta or the
  longitude delta to the stored one is \<open>\<ge> 0.0001\<close>, the update handler accepts the new fix
  \<open>b\<close>: the stored coordinate becomes \<open>b\<close>, the status becomes \<open>GEOCODING\<close>, and exactly
  one resolver call is issued, with the latitude and the longitude of \<open>b\<close>; it joins the
  calls in flight.
\<close>

theorem significant_fix_accepted:
  assumes "case lastPosition (ui \<sigma>) of
             None \<Rightarrow> True
           | Some a \<Rightarrow>
               number_ge (Math_abs (number_sub (lat a) (latitude b))) threshold \<or>
               number_ge (Math_abs (number_sub (lon a) (longitude b))) threshold"
  shows "handleLocationUpdate_call b (ui \<sigma>) =
           ((ui \<sigma>)\<lparr>lastPosition := Some \<lparr>lat = latitude b, lon = longitude b\<rparr>,
                    status := GEOCODING\<rparr>,
            [\<lparr>arg_lat = latitude b, arg_lon = longitude b\<rparr>]) \<and>
         step (Fix b) \<sigma> =
           \<sigma>\<lparr>ui := (ui \<sigma>)\<lparr>lastPosition := Some \<lparr>lat = latitude b, lon = longitude b\<rparr>,
                            status := GEOCODING\<rparr>,
             in_flight := in_flight \<sigma> @ [\<lparr>arg_lat = latitude b, arg_lon = longitude b\<rparr>],
             issued := issued \<sigma> @ [\<lparr>arg_lat = latitude b, arg_lon = longitude b\<rparr>]\<rparr>"
proof -
  from assms have "\<not> unchanged_location (lastPosition (ui \<sigma>)) (latitude b) (longitude b)"
    by (auto simp: unchanged_location_def number_ge_iff split: option.splits)
  then show ?thesis
    by (simp add: handleLocationUpdate_call_def)
qed

text \<open>
  The first fix of the scenario, with nothing stored, and the third, \<open>(45.0002, 4.8)\<close>
  after \<open>(45, 4.8)\<close>, are accepted.
\<close>

theorem significant_fix_accepted_witness:
  "step (Fix \<lparr>latitude = 45, longitude = lon_4_8\<rparr>) (start (Some 1)) =
     \<lparr>ui = \<lparr>town = None, status = GEOCODING, error = None, watchId = Some 1,
             lastPosition = Some \<lparr>lat = 45, lon = lon_4_8\<rparr>\<rparr>,
      in_flight = [\<lparr>arg_lat = 45, arg_lon = lon_4_8\<rparr>],
      issued = [\<lparr>arg_lat = 45, arg_lon = lon_4_8\<rparr>]\<rparr> \<and>
   number_ge (Math_abs (number_sub 45 lat_45_0002)) threshold \<and>
   step (Fix \<lparr>latitude = lat_45_0002, longitude = lon_4_8\<rparr>) seen_45_4_8 =
     \<lparr>ui = \<lparr>town = Some (str ''Lyon''), status = GEOCODING, error = None, watchId = Some 1,
             lastPosition = Some \<lparr>lat = lat_45_0002, lon = lon_4_8\<rparr>\<rparr>,
      in_flight = [\<lparr>arg_lat = lat_45_0002, arg_lon = lon_4_8\<rparr>],
      issued = [\<lparr>arg_lat = 45, arg_lon = lon_4_8\<rparr>,
                \<lparr>arg_lat = lat_45_0002, arg_lon = lon_4_8\<rparr>]\<rparr>"
proof -
  have none: "case lastPosition (ui (start (Some 1))) of
                None \<Rightarrow> True
              | Some a \<Rightarrow>
                  number_ge (Math_abs (number_sub (lat a)
                    (latitude \<lparr>latitude = 45, longitude = lon_4_8\<rparr>))) threshold \<or>
                  number_ge (Math_abs (number_sub (lon a)
                    (longitude \<lparr>latitude = 45, longitude = lon_4_8\<rparr>))) threshold"
    by (simp add: start_def mount_def initial_def)
  have far: "number_ge (Math_abs (number_sub 45 lat_45_0002)) threshold"
    by (simp add: scenario_sub threshold_value)
  then have moved: "case lastPosition (ui seen_45_4_8) of
                None \<Rightarrow> True
              | Some a \<Rightarrow>
                  number_ge (Math_abs (number_sub (lat a)
                    (latitude \<lparr>latitude = lat_45_0002, longitude = lon_4_8\<rparr>))) threshold \<or>
                  number_ge (Math_abs (number_sub (lon a)
                    (longitude \<lparr>latitude = lat_45_0002, longitude = lon_4_8\<rparr>))) threshold"
    by (simp add: seen_45_4_8_def)
  from significant_fix_accepted [OF none] significant_fix_accepted [OF moved] far
  show ?thesis
    by (simp add: start_def mount_def initial_def seen_45_4_8_def)
qed

text \<open>
  Against C3 as it is worded: with \<open>(0, 0)\<close> stored, the fix \<open>(0.0001, 0)\<close> has a
  latitude delta of exactly the threshold and a longitude delta of \<open>0\<close>, so no delta
  exceeds the threshold; the handler accepts it all the same.
\<close>

theorem threshold_delta_accepted:
  "Math_abs (number_sub 0 lat_0_0001) = threshold \<and>
   Math_abs (number_sub 0 0) = Num 0 \<and>
   \<not> number_lt threshold (Math_abs (number_sub 0 lat_0_0001)) \<and>
   \<not> number_lt threshold (Math_abs (number_sub 0 0)) \<and>
   handleLocationUpdate_call \<lparr>latitude = lat_0_0001, longitude = 0\<rparr> seen_origin =
     (seen_origin\<lparr>lastPosition := Some \<lparr>lat = lat_0_0001, lon = 0\<rparr>, status := GEOCODING\<rparr>,
      [\<lparr>arg_lat = lat_0_0001, arg_lon = 0\<rparr>])"
  by (simp add: handleLocationUpdate_call_def unchanged_location_def seen_origin_def
      scenario_sub number_sub_self threshold_value)
    (simp add: lat_0_0001_def)

text \<open>
  C3, amended. A new fix is accepted exactly when no previous coordinate is stored or the
  difference in latitude or in longitude, as the handler computes it (rounded to
  binary64), is in absolute value at least the binary64 value of \<^verbatim>\<open>0.0001\<close>
  (\<open>\<ge>\<close>, not \<open>>\<close>); in particular, a fix with a computed axis delta of exactly that
  value is accepted. An accepted fix is one for which the handler issues its resolver
  call, with the coordinates of the fix; for a rejected one it issues none.
\<close>

theorem acceptance_criterion:
  "(snd (handleLocationUpdate_call b s) = [\<lparr>arg_lat = latitude b, arg_lon = longitude b\<rparr>]
      \<longleftrightarrow>
    (case lastPosition s of
       None \<Rightarrow> True
     | Some a \<Rightarrow>
         number_ge (Math_abs (number_sub (lat a) (latitude b))) threshold \<or>
         number_ge (Math_abs (number_sub (lon a) (longitude b))) threshold)) \<and>
   (snd (handleLocationUpdate_call b s) = [] \<or>
    snd (handleLocationUpdate_call b s) = [\<lparr>arg_lat = latitude b, arg_lon = longitude b\<rparr>]) \<and>
   (lastPosition s = Some a \<and>
    (Math_abs (number_sub (lat a) (latitude b)) = threshold \<or>
     Math_abs (number_sub (lon a) (longitude b)) = threshold)
    \<longrightarrow> snd (handleLocationUpdate_call b s) = [\<lparr>arg_lat = latitude b, arg_lon = longitude b\<rparr>])"
proof -
  have "\<not> number_lt threshold threshold"
    by (simp add: threshold_value)
  then show ?thesis
    by (auto simp: handleLocationUpdate_call_def unchanged_location_def number_ge_iff
        split: option.splits)
qed

theorem acceptance_criterion_witness:
  "lastPosition seen_origin = Some \<lparr>lat = 0, lon = 0\<rparr> \<and>
   Math_abs (number_sub 0 lat_0_0001) = threshold \<and>
   snd (handleLocationUpdate_call \<lparr>latitude = lat_0_0001, longitude = 0\<rparr> seen_origin) =
     [\<lparr>arg_lat = lat_0_0001, arg_lon = 0\<rparr>]"
proof -
  have 1: "lastPosition seen_origin = Some \<lparr>lat = 0, lon = 0\<rparr>"
    by (simp add: seen_origin_def)
  have 2: "Math_abs (number_sub 0 lat_0_0001) = threshold"
    by (simp add: scenario_sub threshold_value) (simp add: lat_0_0001_def)
  from acceptance_criterion [of "\<lparr>latitude = lat_0_0001, longitude = 0\<rparr>" seen_origin
      "\<lparr>lat = 0, lon = 0\<rparr>"] 1 2
  show ?thesis
    by simp
qed

section \<open>Outcomes of the resolver call\<close>

lemma resolve_Lyon:
  "getTownFromCoordinates x y (Response (Some (str ''Lyon''))) = Inr (str ''Lyon'')"
  "getTownFromCoordinates x y (Response (Some (str '' **Lyon** '' @ [0x0A]))) = Inr (str ''Lyon'')"
  by (simp_all add: getTownFromCoordinates_def trim_def is_white_space_def str_def)

lemma resolve_failures:
  "getTownFromCoordinates x y (Rejected e) =
     Inl (Error (str ''Failed to fetch town name from Gemini API.''))"
  "getTownFromCoordinates x y (Response None) =
     Inl (Error (str ''Failed to fetch town name from Gemini API.''))"
  "trim text = [] \<Longrightarrow> getTownFromCoordinates x y (Response (Some text)) =
     Inl (Error (str ''Failed to fetch town name from Gemini API.''))"
  by (simp_all add: getTownFromCoordinates_def)

text \<open>
  C4. When the resolver call of an accepted fix succeeds with a town name, the resulting
  state has status \<open>SUCCESS\<close>, that name as resolved town, and no error message (a
  previous one is cleared). This holds for the handler run in one piece, and for its
  continuation on whatever state \<open>s1\<close> the settlement finds.
\<close>

theorem resolver_success:
  assumes "\<not> unchanged_location (lastPosition s) (latitude b) (longitude b)"
    and "resolver (latitude b) (longitude b) = Inr name"
  shows "handleLocationUpdate resolver b s =
           s\<lparr>lastPosition := Some \<lparr>lat = latitude b, lon = longitude b\<rparr>,
             town := Some name, status := SUCCESS, error := None\<rparr> \<and>
         handleLocationUpdate_settled (Inr name) s1 =
           s1\<lparr>town := Some name, status := SUCCESS, error := None\<rparr>"
  using assms
  by (simp add: handleLocationUpdate_def handleLocationUpdate_call_def
      handleLocationUpdate_settled_def)

text \<open>After a failed lookup at \<open>(0, 0)\<close>, the fix \<open>(1, 1)\<close> resolves to Lyon.\<close>

theorem resolver_success_witness:
  "\<not> unchanged_location (lastPosition seen_origin) 1 1 \<and>
   handleLocationUpdate (\<lambda>x y. getTownFromCoordinates x y (Response (Some (str ''Lyon''))))
       \<lparr>latitude = 1, longitude = 1\<rparr> seen_origin =
     \<lparr>town = Some (str ''Lyon''), status = SUCCESS, error = None, watchId = Some 1,
      lastPosition = Some \<lparr>lat = 1, lon = 1\<rparr>\<rparr>"
proof -
  have 1: "\<not> unchanged_location (lastPosition seen_origin)
             (latitude \<lparr>latitude = 1, longitude = 1\<rparr>) (longitude \<lparr>latitude = 1, longitude = 1\<rparr>)"
    by (simp add: unchanged_location_def seen_origin_def scenario_sub threshold_value)
  have 2: "(\<lambda>x y. getTownFromCoordinates x y (Response (Some (str ''Lyon''))))
             (latitude \<lparr>latitude = 1, longitude = 1\<rparr>) (longitude \<lparr>latitude = 1, longitude = 1\<rparr>)
           = Inr (str ''Lyon'')"
    by (simp add: resolve_Lyon)
  from resolver_success
      [where resolver = "\<lambda>x y. getTownFromCoordinates x y (Response (Some (str ''Lyon'')))"
        and b = "\<lparr>latitude = 1, longitude = 1\<rparr>" and s = seen_origin
        and name = "str ''Lyon''" and ?s1.0 = seen_origin, OF 1 2] 1
  show ?thesis
    by (simp add: seen_origin_def)
qed

text \<open>
  C5. When the resolver call of an accepted fix fails, with whatever error, the resulting
  state has status \<open>ERROR\<close> and the one fixed lookup-failure message as error message,
  and the resolved town is the one from before: a town resolved earlier persists. This
  holds for the handler run in one piece, and for its continuation on whatever state
  \<open>s1\<close> the settlement finds.
\<close>

theorem resolver_failure:
  assumes "\<not> unchanged_location (lastPosition s) (latitude b) (longitude b)"
    and "resolver (latitude b) (longitude b) = Inl e"
  shows "handleLocationUpdate resolver b s =
           s\<lparr>lastPosition := Some \<lparr>lat = latitude b, lon = longitude b\<rparr>,
             status := ERROR, error := Some msg_lookup_failed\<rparr> \<and>
         town (handleLocationUpdate resolver b s) = town s \<and>
         handleLocationUpdate_settled (Inl e) s1 =
           s1\<lparr>status := ERROR, error := Some msg_lookup_failed\<rparr> \<and>
         town (handleLocationUpdate_settled (Inl e) s1) = town s1"
  using assms
  by (simp add: handleLocationUpdate_def handleLocationUpdate_call_def
      handleLocationUpdate_settled_def)

text \<open>After Lyon was resolved at \<open>(0, 0)\<close>, the lookup for \<open>(1, 1)\<close> gets a blank reply.\<close>

theorem resolver_failure_witness:
  "\<not> unchanged_location (lastPosition lyon_at_origin) 1 1 \<and>
   handleLocationUpdate (\<lambda>x y. getTownFromCoordinates x y (Response (Some (str '' ''))))
       \<lparr>latitude = 1, longitude = 1\<rparr> lyon_at_origin =
     \<lparr>town = Some (str ''Lyon''), status = ERROR, error = Some msg_lookup_failed,
      watchId = Some 1, lastPosition = Some \<lparr>lat = 1, lon = 1\<rparr>\<rparr>"
proof -
  have 1: "\<not> unchanged_location (lastPosition lyon_at_origin)
             (latitude \<lparr>latitude = 1, longitude = 1\<rparr>) (longitude \<lparr>latitude = 1, longitude = 1\<rparr>)"
    by (simp add: unchanged_location_def lyon_at_origin_def scenario_sub threshold_value)
  have "trim (str '' '') = []"
    by (simp add: trim_def is_white_space_def str_def)
  then have 2: "(\<lambda>x y. getTownFromCoordinates x y (Response (Some (str '' ''))))
             (latitude \<lparr>latitude = 1, longitude = 1\<rparr>) (longitude \<lparr>latitude = 1, longitude = 1\<rparr>)
           = Inl (Error (str ''Failed to fetch town name from Gemini API.''))"
    by (simp add: resolve_failures)
  from resolver_failure
      [where resolver = "\<lambda>x y. getTownFromCoordinates x y (Response (Some (str '' '')))"
        and b = "\<lparr>latitude = 1, longitude = 1\<rparr>" and s = lyon_at_origin
        and e = "Error (str ''Failed to fetch town name from Gemini API.'')"
        and ?s1.0 = lyon_at_origin, OF 1 2] 1
  show ?thesis
    by (simp add: lyon_at_origin_def)
qed

section \<open>Watcher errors\<close>

lemma messages_distinct:
  "distinct [msg_permission_denied, msg_position_unavailable, msg_timeout, msg_unknown,
     msg_unsupported, msg_lookup_failed]"
  by (simp add: msg_permission_denied_def msg_position_unavailable_def msg_timeout_def
      msg_unknown_def msg_unsupported_def msg_lookup_failed_def str_def)

text \<open>
  C6. For every watcher error and every prior state, the error handler sets the status
  to \<open>ERROR\<close> and the error message to the message of the cause: one fixed string each
  for \<open>PERMISSION_DENIED\<close>, \<open>POSITION_UNAVAILABLE\<close> and \<open>TIMEOUT\<close>, and a fixed
  fallback for every other code, the four of them distinct. The resolved town and the
  last accepted coordinate stay as they are.
\<close>

theorem watcher_error:
  "handleLocationError err s =
     s\<lparr>status := ERROR,
       error := Some (if code err = PERMISSION_DENIED then msg_permission_denied
                      else if code err = POSITION_UNAVAILABLE then msg_position_unavailable
                      else if code err = TIMEOUT then msg_timeout
                      else msg_unknown)\<rparr> \<and>
   town (handleLocationError err s) = town s \<and>
   lastPosition (handleLocationError err s) = lastPosition s \<and>
   distinct [msg_permission_denied, msg_position_unavailable, msg_timeout, msg_unknown] \<and>
   distinct [PERMISSION_DENIED, POSITION_UNAVAILABLE, TIMEOUT]"
proof -
  have "distinct [msg_permission_denied, msg_position_unavailable, msg_timeout, msg_unknown]"
    using messages_distinct by simp
  then show ?thesis
    by (simp add: handleLocationError_def PERMISSION_DENIED_def POSITION_UNAVAILABLE_def
        TIMEOUT_def)
qed

theorem watcher_error_witness:
  "handleLocationError \<lparr>code = 1\<rparr> lyon_at_origin =
     \<lparr>town = Some (str ''Lyon''), status = ERROR, error = Some msg_permission_denied,
      watchId = Some 1, lastPosition = Some \<lparr>lat = 0, lon = 0\<rparr>\<rparr> \<and>
   error (handleLocationError \<lparr>code = 2\<rparr> lyon_at_origin) = Some msg_position_unavailable \<and>
   error (handleLocationError \<lparr>code = 3\<rparr> lyon_at_origin) = Some msg_timeout \<and>
   error (handleLocationError \<lparr>code = 7\<rparr> lyon_at_origin) = Some msg_unknown"
  using watcher_error [of "\<lparr>code = 1\<rparr>" lyon_at_origin]
    watcher_error [of "\<lparr>code = 2\<rparr>" lyon_at_origin]
    watcher_error [of "\<lparr>code = 3\<rparr>" lyon_at_origin]
    watcher_error [of "\<lparr>code = 7\<rparr>" lyon_at_origin]
  by (simp add: lyon_at_origin_def PERMISSION_DENIED_def POSITION_UNAVAILABLE_def TIMEOUT_def)

section \<open>Calls in flight\<close>

text \<open>
  Against C7 as it is worded: the first and the third fix of the scenario arrive with no
  settlement in between, and the second resolver call is issued while the first is still
  in flight.
\<close>

theorem overlapping_calls:
  "in_flight (run [Fix \<lparr>latitude = 45, longitude = lon_4_8\<rparr>,
                   Fix \<lparr>latitude = lat_45_0002, longitude = lon_4_8\<rparr>] (start (Some 1))) =
     [\<lparr>arg_lat = 45, arg_lon = lon_4_8\<rparr>, \<lparr>arg_lat = lat_45_0002, arg_lon = lon_4_8\<rparr>]"
  by (simp add: start_def mount_def initial_def handleLocationUpdate_call_def
      unchanged_location_def scenario_sub threshold_value)

text \<open>
  C7, amended. Each watcher event issues at most one geocoding request: a fix that the
  filter rejects issues none, and a fix that it accepts issues exactly one, whether or
  not earlier requests are still in flight. The handler does not wait for them, so
  several requests can be in flight at a time.
\<close>

theorem call_issued_regardless:
  "in_flight (step (Fix b) \<sigma>) =
     (if unchanged_location (lastPosition (ui \<sigma>)) (latitude b) (longitude b) then in_flight \<sigma>
      else in_flight \<sigma> @ [\<lparr>arg_lat = latitude b, arg_lon = longitude b\<rparr>]) \<and>
   length (in_flight (step e \<sigma>)) \<le> Suc (length (in_flight \<sigma>))"
proof -
  have "length (in_flight (step e \<sigma>)) \<le> Suc (length (in_flight \<sigma>))"
    by (cases e) (auto simp: handleLocationUpdate_call_def Let_def)
  then show ?thesis
    by (simp add: handleLocationUpdate_call_def)
qed

theorem call_issued_regardless_witness:
  "in_flight (step (Fix \<lparr>latitude = 45, longitude = lon_4_8\<rparr>) (start (Some 1))) =
     [\<lparr>arg_lat = 45, arg_lon = lon_4_8\<rparr>] \<and>
   in_flight (step (Fix \<lparr>latitude = lat_45_0002, longitude = lon_4_8\<rparr>)
     (step (Fix \<lparr>latitude = 45, longitude = lon_4_8\<rparr>) (start (Some 1)))) =
     [\<lparr>arg_lat = 45, arg_lon = lon_4_8\<rparr>, \<lparr>arg_lat = lat_45_0002, arg_lon = lon_4_8\<rparr>]"
proof -
  let ?\<sigma>1 = "step (Fix \<lparr>latitude = 45, longitude = lon_4_8\<rparr>) (start (Some 1))"
  have 1: "in_flight ?\<sigma>1 = [\<lparr>arg_lat = 45, arg_lon = lon_4_8\<rparr>]"
    using call_issued_regardless [of "\<lparr>latitude = 45, longitude = lon_4_8\<rparr>" "start (Some 1)"]
    by (simp add: start_def mount_def initial_def unchanged_location_def)
  have "lastPosition (ui ?\<sigma>1) = Some \<lparr>lat = 45, lon = lon_4_8\<rparr>"
    by (simp add: start_def mount_def initial_def handleLocationUpdate_call_def
        unchanged_location_def)
  then have "\<not> unchanged_location (lastPosition (ui ?\<sigma>1)) lat_45_0002 lon_4_8"
    by (simp add: unchanged_location_def scenario_sub threshold_value)
  with 1 call_issued_regardless [of "\<lparr>latitude = lat_45_0002, longitude = lon_4_8\<rparr>" ?\<sigma>1]
  show ?thesis
    by simp
qed

section \<open>The last accepted coordinate\<close>

lemma step_tracks:
  assumes "lastPosition (ui \<sigma>) = last_issued \<sigma>"
  shows "lastPosition (ui (step e \<sigma>)) = last_issued (step e \<sigma>)"
proof (cases e)
  case (Fix b)
  with assms show ?thesis
    by (simp add: handleLocationUpdate_call_def last_issued_def)
next
  case (WatchError err)
  with assms show ?thesis
    by (simp add: handleLocationError_def last_issued_def Let_def)
next
  case (Settle i outcome)
  with assms show ?thesis
    by (simp add: handleLocationUpdate_settled_def last_issued_def Let_def split: sum.splits)
qed

lemma run_tracks:
  "lastPosition (ui \<sigma>) = last_issued \<sigma> \<Longrightarrow>
   lastPosition (ui (run events \<sigma>)) = last_issued (run events \<sigma>)"
  by (induction events arbitrary: \<sigma>) (simp_all add: step_tracks)

lemma settle_keeps:
  "lastPosition (ui (step (Settle i outcome) \<sigma>)) = lastPosition (ui \<sigma>)"
  "issued (step (Settle i outcome) \<sigma>) = issued \<sigma>"
  by (simp_all add: handleLocationUpdate_settled_def Let_def split: sum.splits)

lemma repeated_fix_unchanged:
  "unchanged_location (lastPosition (ui (step (Fix b) \<sigma>))) (latitude b) (longitude b)"
  by (simp add: handleLocationUpdate_call_def unchanged_location_same)

text \<open>
  C8. After any sequence of events, the stored last accepted coordinate is the most
  recent fix that passed the filter, that is the coordinate of the last resolver call
  issued (none when no call was issued). It is written when the fix is accepted, the
  settlement of a call does not touch it, a failed one included; so the same fix again,
  after the call of the first has settled, is rejected and changes nothing.
\<close>

theorem last_position_tracks:
  "lastPosition (ui (run events (start g))) = last_issued (run events (start g)) \<and>
   lastPosition (ui (step (Settle i outcome) \<sigma>)) = lastPosition (ui \<sigma>) \<and>
   step (Fix b) (step (Settle i outcome) (step (Fix b) \<sigma>)) =
     step (Settle i outcome) (step (Fix b) \<sigma>)"
proof -
  have "lastPosition (ui (start g)) = last_issued (start g)"
    by (cases g) (simp_all add: start_def mount_def initial_def last_issued_def)
  then have 1: "lastPosition (ui (run events (start g))) = last_issued (run events (start g))"
    by (rule run_tracks)
  have "unchanged_location (lastPosition (ui (step (Settle i outcome) (step (Fix b) \<sigma>))))
          (latitude b) (longitude b)"
    unfolding settle_keeps by (rule repeated_fix_unchanged)
  then have "step (Fix b) (step (Settle i outcome) (step (Fix b) \<sigma>)) =
     step (Settle i outcome) (step (Fix b) \<sigma>)"
    by (simp add: handleLocationUpdate_call_def del: step.simps(3))
  with 1 settle_keeps(1) show ?thesis
    by blast
qed

text \<open>The fix \<open>(45, 4.8)\<close>, the failure of its lookup, and the same fix again.\<close>

theorem last_position_tracks_witness:
  "lastPosition (ui (run [Fix \<lparr>latitude = 45, longitude = lon_4_8\<rparr>,
                          Settle 0 (Rejected (Error (str ''fetch failed''))),
                          Fix \<lparr>latitude = 45, longitude = lon_4_8\<rparr>] (start (Some 1)))) =
     Some \<lparr>lat = 45, lon = lon_4_8\<rparr> \<and>
   issued (run [Fix \<lparr>latitude = 45, longitude = lon_4_8\<rparr>,
                Settle 0 (Rejected (Error (str ''fetch failed''))),
                Fix \<lparr>latitude = 45, longitude = lon_4_8\<rparr>] (start (Some 1))) =
     [\<lparr>arg_lat = 45, arg_lon = lon_4_8\<rparr>]"
proof -
  let ?evs = "[Fix \<lparr>latitude = 45, longitude = lon_4_8\<rparr>,
               Settle 0 (Rejected (Error (str ''fetch failed''))),
               Fix \<lparr>latitude = 45, longitude = lon_4_8\<rparr>]"
  have "issued (run ?evs (start (Some 1))) = [\<lparr>arg_lat = 45, arg_lon = lon_4_8\<rparr>]"
    by (simp add: start_def mount_def initial_def handleLocationUpdate_call_def
        unchanged_location_def number_sub_self threshold_value
        getTownFromCoordinates_def handleLocationUpdate_settled_def)
  with last_position_tracks [of ?evs "Some 1"] show ?thesis
    by (simp add: last_issued_def del: run.simps)
qed

section \<open>The credential and the sanitising of the reply\<close>

text \<open>
  C9. When the API credential is absent from the configuration, the evaluation of the
  resolver module throws; the application as a whole ends with that error, whatever
  events would have followed: no component state exists, no resolver call is made, and
  the error is not turned into the \<open>ERROR\<close> status.
\<close>

theorem missing_credential:
  "geminiService None = Inl (Error (str ''API_KEY environment variable not set'')) \<and>
   application None g events = Inl (Error (str ''API_KEY environment variable not set''))"
  by (simp add: geminiService_def application_def)

theorem missing_credential_witness:
  "application None (Some 1) [Fix \<lparr>latitude = 45, longitude = lon_4_8\<rparr>] =
     Inl (Error (str ''API_KEY environment variable not set''))"
  using missing_credential [of "Some 1" "[Fix \<lparr>latitude = 45, longitude = lon_4_8\<rparr>]"]
  by simp

text \<open>
  C10. When the trimmed text of the reply is not empty and consists of backticks and
  asterisks only, \<open>getTownFromCoordinates\<close> succeeds with the empty string: the text is
  tested for emptiness before the two characters are removed. The handler then sets the
  resolved town to the empty string, with status \<open>SUCCESS\<close>.
\<close>

theorem formatting_only_reply:
  assumes "trim text \<noteq> []" and "set (trim text) \<subseteq> {0x60, 0x2A}"
  shows "getTownFromCoordinates x y (Response (Some text)) = Inr [] \<and>
         handleLocationUpdate_settled (getTownFromCoordinates x y (Response (Some text))) s =
           s\<lparr>town := Some [], status := SUCCESS, error := None\<rparr>"
proof -
  from assms(2) have "filter (\<lambda>c. c \<noteq> 0x60 \<and> c \<noteq> 0x2A) (trim text) = []"
    by (auto simp: filter_empty_conv)
  with assms(1) have "getTownFromCoordinates x y (Response (Some text)) = Inr []"
    by (simp add: getTownFromCoordinates_def)
  then show ?thesis
    by (simp add: handleLocationUpdate_settled_def)
qed

text \<open>The reply is a space, two backticks and a line feed.\<close>

theorem formatting_only_reply_witness:
  "trim [0x20, 0x60, 0x60, 0x0A] = [0x60, 0x60] \<and>
   getTownFromCoordinates 45 lon_4_8 (Response (Some [0x20, 0x60, 0x60, 0x0A])) = Inr [] \<and>
   handleLocationUpdate_settled
       (getTownFromCoordinates 45 lon_4_8 (Response (Some [0x20, 0x60, 0x60, 0x0A]))) seen_origin =
     \<lparr>town = Some [], status = SUCCESS, error = None, watchId = Some 1,
      lastPosition = Some \<lparr>lat = 0, lon = 0\<rparr>\<rparr>"
proof -
  have 1: "trim [0x20, 0x60, 0x60, 0x0A] = [0x60, 0x60]"
    by (simp add: trim_def is_white_space_def)
  then have 2: "trim [0x20, 0x60, 0x60, 0x0A] \<noteq> []"
    and 3: "set (trim [0x20, 0x60, 0x60, 0x0A]) \<subseteq> {0x60, 0x2A}"
    by simp_all
  from formatting_only_reply [OF 2 3, of 45 lon_4_8 seen_origin] 1 show ?thesis
    by (simp add: seen_origin_def handleLocationUpdate_settled_def)
qed

end
